theory Spec2Isabelle
  imports Complex_Main "HOL-Library.Sublist"
begin

section \<open>The recommendation service of main.py\<close>

text \<open>
  The service keeps three globals that are filled once at import time (the scoring model,
  the asset table and the identifier sequence) and answers \<open>POST /recommend\<close>. Every
  exception the handler can raise is a value of \<open>error\<close>; a result is \<open>error + 'a\<close>
  with \<open>Inl\<close> for the exception.
\<close>

datatype error = ValidationError | TypeError | KeyError | AttributeError

subsection \<open>Data\<close>

text \<open>
  A row of \<open>asset_information.csv\<close>, reduced to the two columns the service reads.
\<close>

record asset =
  ISIN :: string
  assetCategory :: string

text \<open>
  \<open>df_assets\<close> is either the table read from the CSV file or, when reading it raised,
  the column-less \<open>pd.DataFrame()\<close>.
\<close>

datatype dataframe = DataFrame "asset list" | EmptyFrame

text \<open>
  The unpickled SVD model, reduced to the two capabilities the service uses:
  \<open>trainset.to_inner_uid\<close> (which raises ValueError for a raw id outside the training
  set: \<open>None\<close> here) and the estimate \<open>predict(uid, iid).est\<close>, a finite float (the
  model clips it to the rating scale), taken as a real number.
\<close>

record svd =
  to_inner_uid :: "string \<Rightarrow> nat option"
  est :: "string \<Rightarrow> string \<Rightarrow> real"

record globals =
  MODEL_SVD :: "svd option"
  df_assets :: dataframe
  ALL_ASSET_IDS :: "string list"

text \<open>
  \<open>class RecommendationRequest(BaseModel)\<close>: \<open>user_id: str\<close>,
  \<open>risk_profile: Optional[str] = "Balanced"\<close>, \<open>top_k: int = 5\<close>. Python integers are
  unbounded, and \<open>Optional[str]\<close> admits \<open>None\<close>.
\<close>

record RecommendationRequest =
  user_id :: string
  risk_profile :: "string option"
  top_k :: int

record RecommendationResponse =
  resp_user_id :: string
  source :: string
  recommendations :: "string list"

text \<open>
  The JSON body of a request before validation: each field is present or omitted, and
  \<open>risk_profile\<close> may be present as \<open>null\<close>.
\<close>

record body =
  body_user_id :: "string option"
  body_risk_profile :: "string option option"
  body_top_k :: "int option"

subsection \<open>Library operations the service calls\<close>

text \<open>
  \<open>Series.unique()\<close>: the distinct values in order of first appearance.
\<close>

fun unique :: "'a list \<Rightarrow> 'a list" where
  "unique [] = []"
| "unique (x # xs) = x # unique (filter (\<lambda>y. y \<noteq> x) xs)"

text \<open>
  \<open>DataFrame.head(n)\<close> and the slice \<open>xs[:n]\<close>: the first \<open>n\<close> elements for
  \<open>n \<ge> 0\<close>, and all but the last \<open>|n|\<close> elements for a negative \<open>n\<close>.
\<close>

definition head :: "int \<Rightarrow> 'a list \<Rightarrow> 'a list" where
  "head n xs = (if 0 \<le> n then take (nat n) xs else take (length xs - nat (- n)) xs)"

text \<open>
  \<open>list.sort(key=f, reverse=True)\<close>: the list is reversed, sorted stably in ascending
  key order and reversed again.
\<close>

definition sort_reverse :: "('a \<Rightarrow> 'k::linorder) \<Rightarrow> 'a list \<Rightarrow> 'a list" where
  "sort_reverse f xs = rev (sort_key f (rev xs))"

subsection \<open>Startup\<close>

text \<open>
  The two \<open>try\<close> blocks at import time. \<open>pkl\<close> is the unpickled model, \<open>None\<close> when
  \<open>model_svd.pkl\<close> is not found; \<open>csv\<close> is the table read by \<open>pd.read_csv\<close>, \<open>None\<close>
  when reading it (or selecting its ISIN column) raised.
\<close>

definition startup :: "svd option \<Rightarrow> asset list option \<Rightarrow> globals" where
  "startup pkl csv =
     (case csv of
        Some rows \<Rightarrow>
          \<lparr>MODEL_SVD = pkl, df_assets = DataFrame rows, ALL_ASSET_IDS = unique (map ISIN rows)\<rparr>
      | None \<Rightarrow>
          \<lparr>MODEL_SVD = pkl, df_assets = EmptyFrame, ALL_ASSET_IDS = []\<rparr>)"

subsection \<open>Helper functions\<close>

text \<open>
  The \<open>if\<close>/\<open>elif\<close>/\<open>else\<close> chain of \<open>get_cold_start_recs\<close>; \<open>'X' in s\<close> on strings
  is the substring test.
\<close>

definition target_cats :: "string \<Rightarrow> string list" where
  "target_cats rp =
     (if sublist ''Conservative'' rp then [''Bond'']
      else if sublist ''Aggressive'' rp then [''Stock'']
      else [''Stock'', ''MTF''])"

text \<open>
  \<open>get_cold_start_recs\<close>. \<open>'Conservative' in None\<close> raises TypeError, and selecting
  the column \<open>assetCategory\<close> of the column-less frame raises KeyError.
\<close>

definition get_cold_start_recs :: "globals \<Rightarrow> string option \<Rightarrow> int \<Rightarrow> error + string list" where
  "get_cold_start_recs g rp k =
     (case rp of
        None \<Rightarrow> Inl TypeError
      | Some r \<Rightarrow>
          (case df_assets g of
             EmptyFrame \<Rightarrow> Inl KeyError
           | DataFrame rows \<Rightarrow>
               Inr (map ISIN (head k (filter (\<lambda>a. assetCategory a \<in> set (target_cats r)) rows)))))"

text \<open>
  \<open>get_warm_start_recs\<close>: one prediction per identifier of \<open>ALL_ASSET_IDS\<close>, sorted
  by estimate in descending order, cut to \<open>[:top_k]\<close>. \<open>MODEL_SVD.predict\<close> on an absent
  model raises AttributeError in the first round of the loop; over an empty identifier
  sequence the loop body never runs and the result is the empty list.
\<close>

definition predictions :: "svd \<Rightarrow> string list \<Rightarrow> string \<Rightarrow> (string \<times> real) list" where
  "predictions m ids u = map (\<lambda>asset_id. (asset_id, est m u asset_id)) ids"

definition get_warm_start_recs :: "globals \<Rightarrow> string \<Rightarrow> int \<Rightarrow> error + string list" where
  "get_warm_start_recs g u k =
     (case MODEL_SVD g of
        None \<Rightarrow> (if ALL_ASSET_IDS g = [] then Inr [] else Inl AttributeError)
      | Some m \<Rightarrow> Inr (map fst (head k (sort_reverse snd (predictions m (ALL_ASSET_IDS g) u)))))"

subsection \<open>The endpoint\<close>

definition use_ai :: "globals \<Rightarrow> string \<Rightarrow> bool" where
  "use_ai g u =
     (case MODEL_SVD g of
        None \<Rightarrow> False
      | Some m \<Rightarrow> (case to_inner_uid m u of Some _ \<Rightarrow> True | None \<Rightarrow> False))"

text \<open>The f-string \<open>f"Rule-Based ({request.risk_profile})"\<close>.\<close>

definition rule_based :: "string option \<Rightarrow> string" where
  "rule_based rp = ''Rule-Based ('' @ (case rp of None \<Rightarrow> ''None'' | Some r \<Rightarrow> r) @ '')''"

definition recommend :: "globals \<Rightarrow> RecommendationRequest \<Rightarrow> error + RecommendationResponse" where
  "recommend g request =
     (if use_ai g (user_id request) then
        (case get_warm_start_recs g (user_id request) (top_k request) of
           Inl e \<Rightarrow> Inl e
         | Inr recs \<Rightarrow>
             Inr \<lparr>resp_user_id = user_id request, source = ''AI Model (SVD)'',
                  recommendations = recs\<rparr>)
      else
        (case get_cold_start_recs g (risk_profile request) (top_k request) of
           Inl e \<Rightarrow> Inl e
         | Inr recs \<Rightarrow>
             Inr \<lparr>resp_user_id = user_id request, source = rule_based (risk_profile request),
                  recommendations = recs\<rparr>))"

text \<open>
  Validation of the body against the field declarations of \<open>RecommendationRequest\<close>:
  \<open>user_id\<close> has no default and is required; \<open>risk_profile\<close> and \<open>top_k\<close> take their
  defaults when omitted; no field declares a length or range constraint.
\<close>

definition validate :: "body \<Rightarrow> error + RecommendationRequest" where
  "validate b =
     (case body_user_id b of
        None \<Rightarrow> Inl ValidationError
      | Some u \<Rightarrow>
          Inr \<lparr>user_id = u,
               risk_profile = (case body_risk_profile b of None \<Rightarrow> Some ''Balanced'' | Some r \<Rightarrow> r),
               top_k = (case body_top_k b of None \<Rightarrow> 5 | Some k \<Rightarrow> k)\<rparr>)"

definition post_recommend :: "globals \<Rightarrow> body \<Rightarrow> error + RecommendationResponse" where
  "post_recommend g b = (case validate b of Inl e \<Rightarrow> Inl e | Inr request \<Rightarrow> recommend g request)"

subsection \<open>Example inputs\<close>

text \<open>
  The three-asset catalog and the scores of the example scenarios, the catalog extended
  by a fourth asset whose score ties with the third, and a catalog with two spellings of
  the fund category.
\<close>

abbreviation catalog3 :: "asset list" where
  "catalog3 \<equiv>
     [\<lparr>ISIN = ''A1'', assetCategory = ''Bond''\<rparr>,
      \<lparr>ISIN = ''A2'', assetCategory = ''Stock''\<rparr>,
      \<lparr>ISIN = ''A3'', assetCategory = ''Bond''\<rparr>]"

abbreviation catalog4 :: "asset list" where
  "catalog4 \<equiv> catalog3 @ [\<lparr>ISIN = ''A4'', assetCategory = ''Stock''\<rparr>]"

abbreviation catalog_funds :: "asset list" where
  "catalog_funds \<equiv>
     [\<lparr>ISIN = ''F1'', assetCategory = ''MultiTypeFund''\<rparr>,
      \<lparr>ISIN = ''F2'', assetCategory = ''MTF''\<rparr>,
      \<lparr>ISIN = ''F3'', assetCategory = ''Stock''\<rparr>]"

abbreviation model3 :: svd where
  "model3 \<equiv>
     \<lparr>to_inner_uid = (\<lambda>u. if u = ''U1001'' then Some 0 else None),
      est = (\<lambda>u a. if a = ''A1'' then 9 / 10 else if a = ''A2'' then 1 / 2 else 7 / 10)\<rparr>"

section \<open>Properties of the library operations\<close>

lemma head_nonneg: "0 \<le> n \<Longrightarrow> head n xs = take (nat n) xs"
  by (simp add: head_def)

lemma head_take: "\<exists>m. head n xs = take m xs"
  by (auto simp: head_def)

lemma head_prefix: "prefix (head n xs) xs"
  by (simp add: head_def take_is_prefix)

lemma length_head_le: "0 \<le> n \<Longrightarrow> int (length (head n xs)) \<le> n"
  by (simp add: head_def)

lemma head_all: "int (length xs) \<le> n \<Longrightarrow> head n xs = xs"
  by (auto simp: head_def)

lemma distinct_head: "distinct xs \<Longrightarrow> distinct (head n xs)"
  by (simp add: head_def)

lemma map_head: "map f (head n xs) = head n (map f xs)"
  by (simp add: head_def take_map)

lemma sorted_wrt_head: "sorted_wrt R xs \<Longrightarrow> sorted_wrt R (head n xs)"
proof -
  assume R: "sorted_wrt R xs"
  obtain m where m: "head n xs = take m xs"
    using head_take by blast
  have "sorted_wrt R (take m xs @ drop m xs)"
    using R by simp
  then have "sorted_wrt R (take m xs)"
    unfolding sorted_wrt_append by blast
  with m show ?thesis by simp
qed

lemma set_unique: "set (unique xs) = set xs"
  by (induction xs rule: unique.induct) auto

lemma distinct_unique: "distinct (unique xs)"
  by (induction xs rule: unique.induct) (auto simp: set_unique)

lemma unique_distinct: "distinct xs \<Longrightarrow> unique xs = xs"
proof (induction xs)
  case Nil
  then show ?case by simp
next
  case (Cons a xs)
  then have "filter (\<lambda>y. y \<noteq> a) xs = xs"
    by (auto simp: filter_id_conv)
  with Cons show ?case by simp
qed

lemma sort_reverse_sorted: "sorted_wrt (\<lambda>a b. f b \<le> f a) (sort_reverse f xs)"
proof -
  have "sorted (map f (sort_key f (rev xs)))"
    by (rule sorted_sort_key)
  then have "sorted_wrt (\<lambda>a b. f a \<le> f b) (sort_key f (rev xs))"
    by (simp add: sorted_map)
  then show ?thesis
    by (simp add: sort_reverse_def sorted_wrt_rev)
qed

lemma sort_reverse_stable:
  "filter (\<lambda>y. f y = c) (sort_reverse f xs) = filter (\<lambda>y. f y = c) xs"
  by (simp add: sort_reverse_def rev_filter [symmetric] sort_key_stable)

lemma set_sort_reverse: "set (sort_reverse f xs) = set xs"
  by (simp add: sort_reverse_def)

lemma length_sort_reverse: "length (sort_reverse f xs) = length xs"
  by (simp add: sort_reverse_def)

lemma distinct_sort_reverse: "distinct (sort_reverse f xs) = distinct xs"
  by (simp add: sort_reverse_def)

section \<open>Properties of the rankers\<close>

lemma predictions_snd: "p \<in> set (predictions m ids u) \<Longrightarrow> snd p = est m u (fst p)"
  by (auto simp: predictions_def)

lemma map_fst_predictions: "map fst (predictions m ids u) = ids"
  by (simp add: predictions_def comp_def)

lemma ranked_sorted:
  "sorted_wrt (\<lambda>a b. est m u b \<le> est m u a) (map fst (sort_reverse snd (predictions m ids u)))"
proof -
  let ?ps = "sort_reverse snd (predictions m ids u)"
  have "sorted_wrt (\<lambda>p q. snd q \<le> snd p) ?ps"
    by (rule sort_reverse_sorted)
  then have "sorted_wrt (\<lambda>p q. est m u (fst q) \<le> est m u (fst p)) ?ps"
    by (rule sorted_wrt_mono_rel [rotated]) (simp add: set_sort_reverse predictions_snd)
  then show ?thesis
    by (simp add: sorted_wrt_map)
qed

lemma ranked_set: "set (map fst (sort_reverse snd (predictions m ids u))) = set ids"
proof -
  have "set (map fst (sort_reverse snd (predictions m ids u))) = fst ` set (predictions m ids u)"
    by (simp add: set_sort_reverse)
  also have "\<dots> = set (map fst (predictions m ids u))"
    by simp
  finally show ?thesis
    by (simp add: map_fst_predictions)
qed

lemma ranked_distinct:
  assumes "distinct ids"
  shows "distinct (map fst (sort_reverse snd (predictions m ids u)))"
proof -
  let ?ps = "predictions m ids u"
  have "distinct (map fst ?ps)"
    using assms by (simp add: map_fst_predictions)
  then have "distinct ?ps" and "inj_on fst (set ?ps)"
    by (simp_all add: distinct_map)
  then show ?thesis
    by (simp add: distinct_map distinct_sort_reverse set_sort_reverse)
qed

lemma ranked_stable:
  "filter (\<lambda>a. est m u a = s) (map fst (sort_reverse snd (predictions m ids u)))
     = filter (\<lambda>a. est m u a = s) ids"
proof -
  let ?ps = "predictions m ids u"
  have "filter (\<lambda>a. est m u a = s) (map fst (sort_reverse snd ?ps))
      = map fst (filter (\<lambda>p. est m u (fst p) = s) (sort_reverse snd ?ps))"
    by (simp add: filter_map comp_def)
  also have "filter (\<lambda>p. est m u (fst p) = s) (sort_reverse snd ?ps)
      = filter (\<lambda>p. snd p = s) (sort_reverse snd ?ps)"
    by (rule filter_cong) (simp_all add: set_sort_reverse predictions_snd)
  also have "\<dots> = filter (\<lambda>p. snd p = s) ?ps"
    by (rule sort_reverse_stable)
  also have "\<dots> = filter (\<lambda>p. est m u (fst p) = s) ?ps"
    by (rule filter_cong) (simp_all add: predictions_snd)
  also have "map fst \<dots> = filter (\<lambda>a. est m u a = s) (map fst ?ps)"
    by (simp add: filter_map comp_def)
  finally show ?thesis
    by (simp add: map_fst_predictions)
qed

lemma get_warm_start_recs_loaded:
  "MODEL_SVD g = Some m \<Longrightarrow>
   get_warm_start_recs g u k = Inr (head k (map fst (sort_reverse snd (predictions m (ALL_ASSET_IDS g) u))))"
  by (simp add: get_warm_start_recs_def map_head)

lemma sorted_wrt_filter_nth:
  "sorted_wrt R (filter P xs) \<Longrightarrow> i < j \<Longrightarrow> j < length xs \<Longrightarrow> P (xs ! i) \<Longrightarrow> P (xs ! j)
     \<Longrightarrow> R (xs ! i) (xs ! j)"
proof (induction xs arbitrary: i j)
  case Nil
  then show ?case by simp
next
  case (Cons x xs)
  show ?case
  proof (cases i)
    case 0
    with Cons.prems have "P x" and "xs ! (j - 1) \<in> set (filter P xs)" and "j \<noteq> 0"
      by auto
    with Cons.prems(1) 0 show ?thesis
      by (cases j) auto
  next
    case (Suc i')
    with Cons.prems obtain j' where j: "j = Suc j'"
      by (cases j) auto
    have "sorted_wrt R (filter P xs)"
      using Cons.prems(1) by (cases "P x") auto
    then have "R (xs ! i') (xs ! j')"
      using Cons.prems Suc j by (intro Cons.IH) auto
    then show ?thesis
      by (simp add: Suc j)
  qed
qed

lemma sorted_wrt_prefix: "prefix xs ys \<Longrightarrow> sorted_wrt R ys \<Longrightarrow> sorted_wrt R xs"
  by (auto simp: prefix_def sorted_wrt_append)

lemma startup_loaded:
  "MODEL_SVD (startup pkl (Some rows)) = pkl"
  "df_assets (startup pkl (Some rows)) = DataFrame rows"
  "ALL_ASSET_IDS (startup pkl (Some rows)) = unique (map ISIN rows)"
  by (simp_all add: startup_def)

lemma target_cats_enum:
  "target_cats ''Conservative'' = [''Bond'']"
  "target_cats ''Aggressive'' = [''Stock'']"
  "target_cats ''Balanced'' = [''Stock'', ''MTF'']"
  by (simp_all add: target_cats_def sublist_code(3))

lemma target_cats_else:
  "\<not> sublist ''Conservative'' rp \<Longrightarrow> \<not> sublist ''Aggressive'' rp
     \<Longrightarrow> target_cats rp = [''Stock'', ''MTF'']"
  by (simp add: target_cats_def)

lemma target_cats_conservative:
  "sublist ''Conservative'' rp \<Longrightarrow> target_cats rp = [''Bond'']"
  by (simp add: target_cats_def)

lemma target_cats_aggressive:
  "\<not> sublist ''Conservative'' rp \<Longrightarrow> sublist ''Aggressive'' rp \<Longrightarrow> target_cats rp = [''Stock'']"
  by (simp add: target_cats_def)

lemma get_cold_start_recs_cong:
  "target_cats rp = target_cats rp'
     \<Longrightarrow> get_cold_start_recs g (Some rp) k = get_cold_start_recs g (Some rp') k"
  by (cases "df_assets g") (simp_all add: get_cold_start_recs_def)

lemma get_cold_start_recs_loaded:
  "df_assets g = DataFrame rows \<Longrightarrow>
   get_cold_start_recs g (Some rp) k
     = Inr (map ISIN (head k (filter (\<lambda>a. assetCategory a \<in> set (target_cats rp)) rows)))"
  by (simp add: get_cold_start_recs_def)

lemma validate_present:
  "validate \<lparr>body_user_id = Some u, body_risk_profile = rp, body_top_k = t\<rparr>
     = Inr \<lparr>user_id = u,
            risk_profile = (case rp of None \<Rightarrow> Some ''Balanced'' | Some r \<Rightarrow> r),
            top_k = (case t of None \<Rightarrow> 5 | Some k \<Rightarrow> k)\<rparr>"
  by (simp add: validate_def)

lemma validate_missing:
  "validate \<lparr>body_user_id = None, body_risk_profile = rp, body_top_k = t\<rparr> = Inl ValidationError"
  by (simp add: validate_def)

lemma validate_omitted_risk_profile:
  "validate \<lparr>body_user_id = u, body_risk_profile = None, body_top_k = t\<rparr>
     = validate \<lparr>body_user_id = u, body_risk_profile = Some (Some ''Balanced''), body_top_k = t\<rparr>"
  by (cases u) (simp_all add: validate_present validate_missing)

lemma use_ai_iff:
  "use_ai g u \<longleftrightarrow> (\<exists>m i. MODEL_SVD g = Some m \<and> to_inner_uid m u = Some i)"
  by (auto simp: use_ai_def split: option.splits)

lemma model_absent_cold: "MODEL_SVD g = None \<Longrightarrow> \<not> use_ai g u"
  by (simp add: use_ai_def)

lemma recommend_warm:
  assumes "use_ai g (user_id request)"
  shows "\<exists>recs. get_warm_start_recs g (user_id request) (top_k request) = Inr recs
          \<and> recommend g request
              = Inr \<lparr>resp_user_id = user_id request, source = ''AI Model (SVD)'',
                     recommendations = recs\<rparr>"
proof -
  from assms obtain m where "MODEL_SVD g = Some m"
    by (auto simp: use_ai_iff)
  then have "get_warm_start_recs g (user_id request) (top_k request)
      = Inr (head (top_k request)
          (map fst (sort_reverse snd (predictions m (ALL_ASSET_IDS g) (user_id request)))))"
    by (rule get_warm_start_recs_loaded)
  with assms show ?thesis
    by (simp add: recommend_def)
qed

lemma recommend_cold:
  assumes "\<not> use_ai g (user_id request)"
    and "df_assets g = DataFrame rows" and "risk_profile request = Some rp"
  shows "recommend g request
     = Inr \<lparr>resp_user_id = user_id request, source = ''Rule-Based ('' @ rp @ '')'',
            recommendations = map ISIN (head (top_k request)
              (filter (\<lambda>a. assetCategory a \<in> set (target_cats rp)) rows))\<rparr>"
  using assms get_cold_start_recs_loaded [OF assms(2), of rp "top_k request"]
  by (simp add: recommend_def rule_based_def)

lemma recommend_Inr:
  assumes "recommend g request = Inr r"
  shows "get_warm_start_recs g (user_id request) (top_k request) = Inr (recommendations r)
       \<or> get_cold_start_recs g (risk_profile request) (top_k request) = Inr (recommendations r)"
  using assms by (auto simp: recommend_def split: if_splits sum.splits)

lemma recommend_not_ValidationError: "recommend g request \<noteq> Inl ValidationError"
  by (auto simp: recommend_def get_warm_start_recs_def get_cold_start_recs_def
      split: if_splits sum.splits option.splits dataframe.splits)

lemma length_warm_le:
  "get_warm_start_recs g u k = Inr recs \<Longrightarrow> 0 \<le> k \<Longrightarrow> int (length recs) \<le> k"
  by (auto simp: get_warm_start_recs_def head_def split: option.splits if_splits)

lemma length_cold_le:
  "get_cold_start_recs g rp k = Inr recs \<Longrightarrow> 0 \<le> k \<Longrightarrow> int (length recs) \<le> k"
  by (auto simp: get_cold_start_recs_def head_def split: option.splits dataframe.splits)

lemma distinct_warm:
  assumes "get_warm_start_recs g u k = Inr recs" and "distinct (ALL_ASSET_IDS g)"
  shows "distinct recs"
proof (cases "MODEL_SVD g")
  case None
  with assms(1) have "recs = []"
    by (simp add: get_warm_start_recs_def split: if_splits)
  then show ?thesis
    by simp
next
  case (Some m)
  have "recs = head k (map fst (sort_reverse snd (predictions m (ALL_ASSET_IDS g) u)))"
    using assms(1) get_warm_start_recs_loaded [OF Some, of u k] by simp
  then show ?thesis
    using assms(2) by (simp add: distinct_head ranked_distinct)
qed

lemma distinct_cold:
  assumes "get_cold_start_recs g rp k = Inr recs" and "df_assets g = DataFrame rows"
    and "distinct (map ISIN rows)"
  shows "distinct recs"
proof -
  from assms(1,2) obtain r where
    recs: "recs = head k (map ISIN (filter (\<lambda>a. assetCategory a \<in> set (target_cats r)) rows))"
    by (auto simp: get_cold_start_recs_def map_head split: option.splits)
  have "distinct (map ISIN (filter (\<lambda>a. assetCategory a \<in> set (target_cats r)) rows))"
    using assms(3) by (rule distinct_map_filter)
  then show ?thesis
    unfolding recs by (rule distinct_head)
qed

lemma predictions_cong:
  "(\<And>a. a \<in> set ids \<Longrightarrow> est m u a = est m' u a)
     \<Longrightarrow> predictions m ids u = predictions m' ids u"
  by (simp add: predictions_def)

lemma rule_based_prefix: "prefix ''Rule-Based'' (rule_based rp)"
  by (simp add: rule_based_def)

lemma recommend_dispatch:
  "(use_ai g (user_id request) \<longrightarrow>
      (\<exists>recs. get_warm_start_recs g (user_id request) (top_k request) = Inr recs
         \<and> recommend g request
             = Inr \<lparr>resp_user_id = user_id request, source = ''AI Model (SVD)'',
                    recommendations = recs\<rparr>
         \<and> prefix ''AI Model'' ''AI Model (SVD)''))
   \<and> (\<not> use_ai g (user_id request) \<and> df_assets g = DataFrame rows
        \<and> risk_profile request = Some rp \<longrightarrow>
      (\<exists>recs. get_cold_start_recs g (risk_profile request) (top_k request) = Inr recs
         \<and> recommend g request
             = Inr \<lparr>resp_user_id = user_id request, source = ''Rule-Based ('' @ rp @ '')'',
                    recommendations = recs\<rparr>
         \<and> prefix ''Rule-Based'' (''Rule-Based ('' @ rp @ '')'')))
   \<and> (MODEL_SVD g = None \<longrightarrow> \<not> use_ai g (user_id request))"
  using recommend_warm [of g request] recommend_cold [of g request rows rp]
    get_cold_start_recs_loaded [of g rows rp "top_k request"]
  by (auto simp: model_absent_cold)

section \<open>Claims\<close>

text \<open>
  C3. With the model loaded, the warm-start ranker returns a list; it scores every
  identifier of \<open>ALL_ASSET_IDS\<close> with the model's estimate for the user, sorts by that
  score in descending order and cuts the sorted identifiers to \<open>[:top_k]\<close>, which for a
  non-negative \<open>top_k\<close> is the first \<open>top_k\<close> identifiers; any two returned assets at
  positions \<open>i < j\<close> satisfy \<open>est u (recs ! i) \<ge> est u (recs ! j)\<close>.
\<close>

theorem warm_start_ranking:
  assumes "MODEL_SVD g = Some m"
  shows "\<exists>recs. get_warm_start_recs g u k = Inr recs
           \<and> recs = head k (map fst (sort_reverse snd (predictions m (ALL_ASSET_IDS g) u)))
           \<and> map fst (predictions m (ALL_ASSET_IDS g) u) = ALL_ASSET_IDS g
           \<and> map snd (predictions m (ALL_ASSET_IDS g) u) = map (est m u) (ALL_ASSET_IDS g)
           \<and> (0 \<le> k \<longrightarrow>
                recs = take (nat k) (map fst (sort_reverse snd (predictions m (ALL_ASSET_IDS g) u))))
           \<and> (\<forall>i j. i < j \<and> j < length recs \<longrightarrow> est m u (recs ! j) \<le> est m u (recs ! i))"
proof -
  let ?ranked = "map fst (sort_reverse snd (predictions m (ALL_ASSET_IDS g) u))"
  have eq: "get_warm_start_recs g u k = Inr (head k ?ranked)"
    using assms by (rule get_warm_start_recs_loaded)
  have "sorted_wrt (\<lambda>a b. est m u b \<le> est m u a) (head k ?ranked)"
    by (rule sorted_wrt_head) (rule ranked_sorted)
  then have ord: "\<forall>i j. i < j \<and> j < length (head k ?ranked) \<longrightarrow>
      est m u (head k ?ranked ! j) \<le> est m u (head k ?ranked ! i)"
    by (simp add: sorted_wrt_iff_nth_less)
  have snd: "map snd (predictions m (ALL_ASSET_IDS g) u) = map (est m u) (ALL_ASSET_IDS g)"
    by (simp add: predictions_def comp_def)
  show ?thesis
    using eq ord snd by (simp add: map_fst_predictions head_nonneg)
qed

theorem warm_start_ranking_witness:
  "MODEL_SVD (startup (Some model3) (Some catalog3)) = Some model3
   \<and> get_warm_start_recs (startup (Some model3) (Some catalog3)) ''U1001'' 2 = Inr [''A1'', ''A3'']
   \<and> est model3 ''U1001'' ''A3'' \<le> est model3 ''U1001'' ''A1''"
proof -
  let ?g = "startup (Some model3) (Some catalog3)"
  have h: "MODEL_SVD ?g = Some model3"
    by (simp add: startup_def)
  have ids: "ALL_ASSET_IDS ?g = [''A1'', ''A2'', ''A3'']"
    by (simp add: startup_def)
  have ranked: "map fst (sort_reverse snd (predictions model3 [''A1'', ''A2'', ''A3''] ''U1001''))
      = [''A1'', ''A3'', ''A2'']"
    by (simp add: sort_reverse_def predictions_def)
  from warm_start_ranking [OF h, of "''U1001''" 2]
  obtain recs where r: "get_warm_start_recs ?g ''U1001'' 2 = Inr recs"
    and t: "(0::int) \<le> 2 \<longrightarrow>
      recs = take (nat 2) (map fst (sort_reverse snd (predictions model3 (ALL_ASSET_IDS ?g) ''U1001'')))"
    and o: "\<forall>i j. i < j \<and> j < length recs \<longrightarrow>
      est model3 ''U1001'' (recs ! j) \<le> est model3 ''U1001'' (recs ! i)"
    by blast
  have recs: "recs = [''A1'', ''A3'']"
    using t by (simp add: ids ranked)
  have "(0::nat) < 1 \<and> 1 < length recs"
    by (simp add: recs)
  with o have "est model3 ''U1001'' (recs ! 1) \<le> est model3 ''U1001'' (recs ! 0)"
    by blast
  then show ?thesis
    using h r recs by simp
qed

text \<open>
  C10. The identifier sequence scored by the warm-start ranker is the deduplicated ISIN
  column in order of first appearance. For every score \<open>s\<close>, the returned assets with
  score \<open>s\<close>, in returned order, are an initial segment of the identifiers with score
  \<open>s\<close> in that sequence; so two returned assets with equal scores at positions
  \<open>i < j\<close> stand at positions \<open>p < q\<close> of the sequence.
\<close>

theorem warm_start_ties_in_catalog_order:
  "\<exists>recs. get_warm_start_recs (startup (Some m) (Some rows)) u k = Inr recs
     \<and> ALL_ASSET_IDS (startup (Some m) (Some rows)) = unique (map ISIN rows)
     \<and> distinct (unique (map ISIN rows))
     \<and> (\<forall>s. prefix (filter (\<lambda>a. est m u a = s) recs)
                     (filter (\<lambda>a. est m u a = s) (unique (map ISIN rows))))
     \<and> (\<forall>i j. i < j \<and> j < length recs \<and> est m u (recs ! i) = est m u (recs ! j) \<longrightarrow>
           (\<exists>p q. p < q \<and> q < length (unique (map ISIN rows))
                  \<and> unique (map ISIN rows) ! p = recs ! i
                  \<and> unique (map ISIN rows) ! q = recs ! j))"
proof -
  let ?g = "startup (Some m) (Some rows)"
  let ?ids = "unique (map ISIN rows)"
  let ?ranked = "map fst (sort_reverse snd (predictions m ?ids u))"
  let ?recs = "head k ?ranked"
  let ?R = "\<lambda>a b. \<exists>p q. p < q \<and> q < length ?ids \<and> ?ids ! p = a \<and> ?ids ! q = b"
  have eq: "get_warm_start_recs ?g u k = Inr ?recs"
    using get_warm_start_recs_loaded [of ?g m u k] by (simp add: startup_loaded)
  have pre: "prefix (filter (\<lambda>a. est m u a = s) ?recs) (filter (\<lambda>a. est m u a = s) ?ids)" for s
  proof -
    have "prefix (filter (\<lambda>a. est m u a = s) ?recs) (filter (\<lambda>a. est m u a = s) ?ranked)"
      by (rule filter_mono_prefix) (rule head_prefix)
    then show ?thesis
      by (simp add: ranked_stable)
  qed
  have "sorted_wrt ?R ?ids"
    unfolding sorted_wrt_iff_nth_less by blast
  then have srt: "sorted_wrt ?R (filter (\<lambda>a. est m u a = s) ?recs)" for s
    using pre [of s] by (blast intro: sorted_wrt_prefix sorted_wrt_filter)
  have pos: "?R (?recs ! i) (?recs ! j)"
    if "i < j" "j < length ?recs" "est m u (?recs ! i) = est m u (?recs ! j)" for i j
    using srt [of "est m u (?recs ! j)"] that
    by (rule sorted_wrt_filter_nth) simp
  show ?thesis
    using eq pre pos by (simp add: startup_loaded distinct_unique)
qed

theorem warm_start_ties_in_catalog_order_witness:
  "get_warm_start_recs (startup (Some model3) (Some catalog4)) ''U1001'' 3 = Inr [''A1'', ''A3'', ''A4'']
   \<and> unique (map ISIN catalog4) = [''A1'', ''A2'', ''A3'', ''A4'']
   \<and> est model3 ''U1001'' ''A3'' = est model3 ''U1001'' ''A4''
   \<and> (\<exists>p q. p < q \<and> q < length (unique (map ISIN catalog4))
          \<and> unique (map ISIN catalog4) ! p = ''A3'' \<and> unique (map ISIN catalog4) ! q = ''A4'')"
proof -
  let ?g = "startup (Some model3) (Some catalog4)"
  have ids: "unique (map ISIN catalog4) = [''A1'', ''A2'', ''A3'', ''A4'']"
    by simp
  have val: "get_warm_start_recs ?g ''U1001'' 3 = Inr [''A1'', ''A3'', ''A4'']"
    by (simp add: get_warm_start_recs_def startup_def sort_reverse_def predictions_def head_def)
  from warm_start_ties_in_catalog_order [of model3 catalog4 "''U1001''" 3]
  obtain recs where r: "get_warm_start_recs ?g ''U1001'' 3 = Inr recs"
    and o: "\<forall>i j. i < j \<and> j < length recs
              \<and> est model3 ''U1001'' (recs ! i) = est model3 ''U1001'' (recs ! j) \<longrightarrow>
           (\<exists>p q. p < q \<and> q < length (unique (map ISIN catalog4))
                  \<and> unique (map ISIN catalog4) ! p = recs ! i
                  \<and> unique (map ISIN catalog4) ! q = recs ! j)"
    by blast
  have recs: "recs = [''A1'', ''A3'', ''A4'']"
    using r val by simp
  have "(1::nat) < 2 \<and> 2 < length recs
      \<and> est model3 ''U1001'' (recs ! 1) = est model3 ''U1001'' (recs ! 2)"
    by (simp add: recs)
  with o have "\<exists>p q. p < q \<and> q < length (unique (map ISIN catalog4))
                  \<and> unique (map ISIN catalog4) ! p = recs ! 1
                  \<and> unique (map ISIN catalog4) ! q = recs ! 2"
    by blast
  then have "\<exists>p q. p < q \<and> q < length (unique (map ISIN catalog4))
          \<and> unique (map ISIN catalog4) ! p = ''A3'' \<and> unique (map ISIN catalog4) ! q = ''A4''"
    by (simp add: recs)
  then show ?thesis
    using val ids by simp
qed

text \<open>
  C2, as stated, fails: the profile tests are substring tests, so an unrecognized value
  that contains \<open>Aggressive\<close> gets \<open>[Stock]\<close> and not the list of \<open>Balanced\<close>; and the fund
  category of that list is the tag \<open>MTF\<close>, so a row tagged \<open>MultiTypeFund\<close> is not eligible.
\<close>

theorem cold_start_mapping_counterexample:
  "''Ultra-Aggressive'' \<noteq> ''Conservative'' \<and> ''Ultra-Aggressive'' \<noteq> ''Balanced''
   \<and> ''Ultra-Aggressive'' \<noteq> ''Aggressive''
   \<and> target_cats ''Ultra-Aggressive'' = [''Stock'']
   \<and> get_cold_start_recs (startup None (Some catalog_funds)) (Some ''Ultra-Aggressive'') 5
        = Inr [''F3'']
   \<and> target_cats ''Balanced'' = [''Stock'', ''MTF'']
   \<and> ''MultiTypeFund'' \<notin> set (target_cats ''Balanced'')
   \<and> get_cold_start_recs (startup None (Some catalog_funds)) (Some ''Balanced'') 5
        = Inr [''F2'', ''F3'']"
  by (simp add: startup_def get_cold_start_recs_def target_cats_def sublist_code(3) head_def)

text \<open>
  C2, amended. With the asset table loaded, the cold-start ranker gives a risk profile
  that contains \<open>Conservative\<close> the list \<open>[Bond]\<close>, one that does not but contains
  \<open>Aggressive\<close> the list \<open>[Stock]\<close>, and every other one, \<open>Balanced\<close> included, the list
  \<open>[Stock, MTF]\<close>; it keeps the rows whose category is in that list, in table order, and
  returns the identifiers of \<open>head(top_k)\<close>: the first \<open>top_k\<close> matches for a non-negative
  \<open>top_k\<close>, and all of them when there are at most \<open>top_k\<close>.
\<close>

theorem cold_start_filter_truncate:
  assumes "df_assets g = DataFrame rows"
  shows "(sublist ''Conservative'' rp \<longrightarrow> target_cats rp = [''Bond''])
       \<and> (\<not> sublist ''Conservative'' rp \<and> sublist ''Aggressive'' rp \<longrightarrow>
            target_cats rp = [''Stock''])
       \<and> (\<not> sublist ''Conservative'' rp \<and> \<not> sublist ''Aggressive'' rp \<longrightarrow>
            target_cats rp = [''Stock'', ''MTF''])
       \<and> target_cats ''Conservative'' = [''Bond'']
       \<and> target_cats ''Aggressive'' = [''Stock'']
       \<and> target_cats ''Balanced'' = [''Stock'', ''MTF'']
       \<and> get_cold_start_recs g (Some rp) k
            = Inr (map ISIN (head k (filter (\<lambda>a. assetCategory a \<in> set (target_cats rp)) rows)))
       \<and> (0 \<le> k \<longrightarrow>
            get_cold_start_recs g (Some rp) k
              = Inr (map ISIN (take (nat k)
                  (filter (\<lambda>a. assetCategory a \<in> set (target_cats rp)) rows))))
       \<and> (int (length (filter (\<lambda>a. assetCategory a \<in> set (target_cats rp)) rows)) \<le> k \<longrightarrow>
            get_cold_start_recs g (Some rp) k
              = Inr (map ISIN (filter (\<lambda>a. assetCategory a \<in> set (target_cats rp)) rows)))"
  using get_cold_start_recs_loaded [OF assms, of rp k]
  by (simp add: target_cats_enum target_cats_else target_cats_conservative
      target_cats_aggressive head_nonneg head_all)

theorem cold_start_filter_truncate_witness:
  "df_assets (startup None (Some catalog3)) = DataFrame catalog3
   \<and> sublist ''Conservative'' ''Very Conservative''
   \<and> target_cats ''Very Conservative'' = [''Bond'']
   \<and> \<not> sublist ''Conservative'' ''Ultra-Aggressive'' \<and> sublist ''Aggressive'' ''Ultra-Aggressive''
   \<and> target_cats ''Ultra-Aggressive'' = [''Stock'']
   \<and> \<not> sublist ''Conservative'' ''Moderate'' \<and> \<not> sublist ''Aggressive'' ''Moderate''
   \<and> target_cats ''Moderate'' = [''Stock'', ''MTF'']
   \<and> int (length (filter (\<lambda>a. assetCategory a \<in> set (target_cats ''Conservative'')) catalog3)) \<le> 5
   \<and> get_cold_start_recs (startup None (Some catalog3)) (Some ''Conservative'') 5
        = Inr [''A1'', ''A3'']
   \<and> (0::int) \<le> 1
   \<and> get_cold_start_recs (startup None (Some catalog3)) (Some ''Conservative'') 1
        = Inr [''A1'']"
proof -
  let ?g = "startup None (Some catalog3)"
  have h: "df_assets ?g = DataFrame catalog3"
    by (simp add: startup_def)
  have vc: "sublist ''Conservative'' ''Very Conservative''"
    by (simp add: sublist_code(3))
  have tvc: "target_cats ''Very Conservative'' = [''Bond'']"
    using cold_start_filter_truncate [OF h, of "''Very Conservative''"] vc by blast
  have ua: "\<not> sublist ''Conservative'' ''Ultra-Aggressive'' \<and> sublist ''Aggressive'' ''Ultra-Aggressive''"
    by (simp add: sublist_code(3))
  have tua: "target_cats ''Ultra-Aggressive'' = [''Stock'']"
    using cold_start_filter_truncate [OF h, of "''Ultra-Aggressive''"] ua by blast
  have n: "\<not> sublist ''Conservative'' ''Moderate'' \<and> \<not> sublist ''Aggressive'' ''Moderate''"
    by (simp add: sublist_code(3))
  have m: "target_cats ''Moderate'' = [''Stock'', ''MTF'']"
    using cold_start_filter_truncate [OF h, of "''Moderate''"] n by blast
  have c: "target_cats ''Conservative'' = [''Bond'']"
    using cold_start_filter_truncate [OF h] by blast
  have f: "filter (\<lambda>a. assetCategory a \<in> set (target_cats ''Conservative'')) catalog3
      = [\<lparr>ISIN = ''A1'', assetCategory = ''Bond''\<rparr>, \<lparr>ISIN = ''A3'', assetCategory = ''Bond''\<rparr>]"
    by (simp add: c)
  have l: "int (length (filter (\<lambda>a. assetCategory a \<in> set (target_cats ''Conservative'')) catalog3)) \<le> 5"
    by (simp add: f)
  have "get_cold_start_recs ?g (Some ''Conservative'') 5
      = Inr (map ISIN (filter (\<lambda>a. assetCategory a \<in> set (target_cats ''Conservative'')) catalog3))"
    using cold_start_filter_truncate [OF h, of "''Conservative''" 5] l by blast
  then have all: "get_cold_start_recs ?g (Some ''Conservative'') 5 = Inr [''A1'', ''A3'']"
    unfolding f by simp
  have k: "(0::int) \<le> 1"
    by simp
  have "get_cold_start_recs ?g (Some ''Conservative'') 1
      = Inr (map ISIN (take (nat 1)
          (filter (\<lambda>a. assetCategory a \<in> set (target_cats ''Conservative'')) catalog3)))"
    using cold_start_filter_truncate [OF h, of "''Conservative''" 1] k by blast
  then have first: "get_cold_start_recs ?g (Some ''Conservative'') 1 = Inr [''A1'']"
    unfolding f by simp
  from h vc tvc ua tua n m l all k first show ?thesis
    by blast
qed

text \<open>
  C6, as stated, fails: the profile tests are substring tests, so a value outside the
  enumeration that contains \<open>Conservative\<close> is not treated as \<open>Balanced\<close>.
\<close>

theorem risk_profile_outside_enum_counterexample:
  "''Very Conservative'' \<noteq> ''Conservative'' \<and> ''Very Conservative'' \<noteq> ''Balanced''
   \<and> ''Very Conservative'' \<noteq> ''Aggressive''
   \<and> target_cats ''Very Conservative'' = [''Bond'']
   \<and> target_cats ''Balanced'' = [''Stock'', ''MTF'']
   \<and> recommend (startup None (Some catalog3))
        \<lparr>user_id = ''u'', risk_profile = Some ''Very Conservative'', top_k = 5\<rparr>
      = Inr \<lparr>resp_user_id = ''u'', source = ''Rule-Based (Very Conservative)'',
             recommendations = [''A1'', ''A3'']\<rparr>
   \<and> recommend (startup None (Some catalog3))
        \<lparr>user_id = ''u'', risk_profile = Some ''Balanced'', top_k = 5\<rparr>
      = Inr \<lparr>resp_user_id = ''u'', source = ''Rule-Based (Balanced)'',
             recommendations = [''A2'']\<rparr>"
  by (simp add: recommend_def use_ai_def startup_def get_cold_start_recs_def target_cats_def
      sublist_code(3) head_def rule_based_def)

text \<open>
  C6, amended. On the cold path a risk profile string that contains \<open>Conservative\<close> is
  treated as \<open>Conservative\<close>; one that does not but contains \<open>Aggressive\<close> is treated as
  \<open>Aggressive\<close>; one that contains neither is treated as \<open>Balanced\<close>: in each case the
  same category list and the same cold-start result as the named profile. A body that
  omits \<open>risk_profile\<close> is validated and answered exactly as the body that gives
  \<open>"Balanced"\<close>.
\<close>

theorem risk_profile_by_substring:
  "(sublist ''Conservative'' rp \<longrightarrow>
      target_cats rp = [''Bond''] \<and> target_cats rp = target_cats ''Conservative''
      \<and> get_cold_start_recs g (Some rp) k = get_cold_start_recs g (Some ''Conservative'') k)
   \<and> (\<not> sublist ''Conservative'' rp \<and> sublist ''Aggressive'' rp \<longrightarrow>
      target_cats rp = [''Stock''] \<and> target_cats rp = target_cats ''Aggressive''
      \<and> get_cold_start_recs g (Some rp) k = get_cold_start_recs g (Some ''Aggressive'') k)
   \<and> (\<not> sublist ''Conservative'' rp \<and> \<not> sublist ''Aggressive'' rp \<longrightarrow>
      target_cats rp = [''Stock'', ''MTF''] \<and> target_cats rp = target_cats ''Balanced''
      \<and> get_cold_start_recs g (Some rp) k = get_cold_start_recs g (Some ''Balanced'') k)
   \<and> validate \<lparr>body_user_id = u, body_risk_profile = None, body_top_k = t\<rparr>
       = validate \<lparr>body_user_id = u, body_risk_profile = Some (Some ''Balanced''), body_top_k = t\<rparr>
   \<and> post_recommend g \<lparr>body_user_id = u, body_risk_profile = None, body_top_k = t\<rparr>
       = post_recommend g
           \<lparr>body_user_id = u, body_risk_profile = Some (Some ''Balanced''), body_top_k = t\<rparr>"
proof (intro conjI impI)
  assume "sublist ''Conservative'' rp"
  then show c: "target_cats rp = [''Bond'']"
    by (rule target_cats_conservative)
  then show c': "target_cats rp = target_cats ''Conservative''"
    by (simp add: target_cats_enum)
  then show "get_cold_start_recs g (Some rp) k = get_cold_start_recs g (Some ''Conservative'') k"
    by (rule get_cold_start_recs_cong)
next
  assume "\<not> sublist ''Conservative'' rp \<and> sublist ''Aggressive'' rp"
  then show a: "target_cats rp = [''Stock'']"
    by (simp add: target_cats_aggressive)
  then show a': "target_cats rp = target_cats ''Aggressive''"
    by (simp add: target_cats_enum)
  then show "get_cold_start_recs g (Some rp) k = get_cold_start_recs g (Some ''Aggressive'') k"
    by (rule get_cold_start_recs_cong)
next
  assume "\<not> sublist ''Conservative'' rp \<and> \<not> sublist ''Aggressive'' rp"
  then show b: "target_cats rp = [''Stock'', ''MTF'']"
    by (simp add: target_cats_else)
  then show b': "target_cats rp = target_cats ''Balanced''"
    by (simp add: target_cats_enum)
  then show "get_cold_start_recs g (Some rp) k = get_cold_start_recs g (Some ''Balanced'') k"
    by (rule get_cold_start_recs_cong)
next
  show "validate \<lparr>body_user_id = u, body_risk_profile = None, body_top_k = t\<rparr>
       = validate \<lparr>body_user_id = u, body_risk_profile = Some (Some ''Balanced''), body_top_k = t\<rparr>"
    by (rule validate_omitted_risk_profile)
  then show "post_recommend g \<lparr>body_user_id = u, body_risk_profile = None, body_top_k = t\<rparr>
       = post_recommend g
           \<lparr>body_user_id = u, body_risk_profile = Some (Some ''Balanced''), body_top_k = t\<rparr>"
    by (simp add: post_recommend_def)
qed

theorem risk_profile_by_substring_witness:
  "sublist ''Conservative'' ''Very Conservative''
   \<and> get_cold_start_recs (startup None (Some catalog3)) (Some ''Very Conservative'') 2
       = get_cold_start_recs (startup None (Some catalog3)) (Some ''Conservative'') 2
   \<and> get_cold_start_recs (startup None (Some catalog3)) (Some ''Conservative'') 2
       = Inr [''A1'', ''A3'']
   \<and> sublist ''Conservative'' ''Aggressive or Conservative''
   \<and> sublist ''Aggressive'' ''Aggressive or Conservative''
   \<and> target_cats ''Aggressive or Conservative'' = [''Bond'']
   \<and> \<not> sublist ''Conservative'' ''Ultra-Aggressive'' \<and> sublist ''Aggressive'' ''Ultra-Aggressive''
   \<and> ''Ultra-Aggressive'' \<noteq> ''Aggressive''
   \<and> target_cats ''Ultra-Aggressive'' = [''Stock'']
   \<and> get_cold_start_recs (startup None (Some catalog3)) (Some ''Ultra-Aggressive'') 2
       = get_cold_start_recs (startup None (Some catalog3)) (Some ''Aggressive'') 2
   \<and> \<not> sublist ''Conservative'' ''Moderate'' \<and> \<not> sublist ''Aggressive'' ''Moderate''
   \<and> target_cats ''Moderate'' = [''Stock'', ''MTF'']
   \<and> get_cold_start_recs (startup None (Some catalog3)) (Some ''Moderate'') 2
       = get_cold_start_recs (startup None (Some catalog3)) (Some ''Balanced'') 2
   \<and> get_cold_start_recs (startup None (Some catalog3)) (Some ''Balanced'') 2 = Inr [''A2'']"
proof -
  let ?g = "startup None (Some catalog3)"
  have vc: "sublist ''Conservative'' ''Very Conservative''"
    by (simp add: sublist_code(3))
  have both: "sublist ''Conservative'' ''Aggressive or Conservative''
      \<and> sublist ''Aggressive'' ''Aggressive or Conservative''"
    by (simp add: sublist_code(3))
  have ua: "\<not> sublist ''Conservative'' ''Ultra-Aggressive'' \<and> sublist ''Aggressive'' ''Ultra-Aggressive''"
    by (simp add: sublist_code(3))
  have ne: "''Ultra-Aggressive'' \<noteq> ''Aggressive''"
    by simp
  have n: "\<not> sublist ''Conservative'' ''Moderate'' \<and> \<not> sublist ''Aggressive'' ''Moderate''"
    by (simp add: sublist_code(3))
  have cons: "get_cold_start_recs ?g (Some ''Conservative'') 2 = Inr [''A1'', ''A3'']"
    by (simp add: get_cold_start_recs_def startup_def target_cats_def sublist_code(3) head_def)
  have bal: "get_cold_start_recs ?g (Some ''Balanced'') 2 = Inr [''A2'']"
    by (simp add: get_cold_start_recs_def startup_def target_cats_def sublist_code(3) head_def)
  have 1: "get_cold_start_recs ?g (Some ''Very Conservative'') 2
      = get_cold_start_recs ?g (Some ''Conservative'') 2"
    using risk_profile_by_substring [of "''Very Conservative''" ?g 2] vc by blast
  have 2: "target_cats ''Aggressive or Conservative'' = [''Bond'']"
    using risk_profile_by_substring [of "''Aggressive or Conservative''" ?g 2] both by blast
  have 3: "target_cats ''Ultra-Aggressive'' = [''Stock'']
      \<and> get_cold_start_recs ?g (Some ''Ultra-Aggressive'') 2
        = get_cold_start_recs ?g (Some ''Aggressive'') 2"
    using risk_profile_by_substring [of "''Ultra-Aggressive''" ?g 2] ua by blast
  have 4: "target_cats ''Moderate'' = [''Stock'', ''MTF'']
      \<and> get_cold_start_recs ?g (Some ''Moderate'') 2
        = get_cold_start_recs ?g (Some ''Balanced'') 2"
    using risk_profile_by_substring [of "''Moderate''" ?g 2] n by blast
  from vc both ua ne n cons bal 1 2 3 4 show ?thesis
    by blast
qed

text \<open>
  C7, as stated, fails: \<open>top_k\<close> is not range-checked, and for a negative \<open>top_k\<close> both
  \<open>head(top_k)\<close> and \<open>[:top_k]\<close> drop the last \<open>|top_k|\<close> elements, so the list can be
  longer than \<open>top_k\<close>.
\<close>

theorem length_invariant_counterexample:
  "recommend (startup None (Some catalog3))
       \<lparr>user_id = ''u'', risk_profile = Some ''Conservative'', top_k = - 1\<rparr>
     = Inr \<lparr>resp_user_id = ''u'', source = ''Rule-Based (Conservative)'',
            recommendations = [''A1'']\<rparr>
   \<and> \<not> int (length [''A1'']) \<le> - 1
   \<and> recommend (startup (Some model3) (Some catalog3))
       \<lparr>user_id = ''U1001'', risk_profile = Some ''Balanced'', top_k = - 1\<rparr>
     = Inr \<lparr>resp_user_id = ''U1001'', source = ''AI Model (SVD)'',
            recommendations = [''A1'', ''A3'']\<rparr>
   \<and> \<not> int (length [''A1'', ''A3'']) \<le> - 1"
  by (simp add: recommend_def use_ai_def startup_def get_cold_start_recs_def
      get_warm_start_recs_def target_cats_def sublist_code(3) head_def rule_based_def
      sort_reverse_def predictions_def)

text \<open>
  C7, amended. For every request with \<open>top_k \<ge> 0\<close> that the handler answers, on the
  cold-start and on the warm-start path, \<open>0 \<le> len(recommendations) \<le> top_k\<close>.
\<close>

theorem length_le_top_k:
  assumes "0 \<le> top_k request" and "recommend g request = Inr r"
  shows "0 \<le> int (length (recommendations r))
       \<and> int (length (recommendations r)) \<le> top_k request"
  using recommend_Inr [OF assms(2)] assms(1)
  by (auto dest: length_warm_le length_cold_le)

theorem length_le_top_k_witness:
  "(0::int) \<le> top_k \<lparr>user_id = ''u'', risk_profile = Some ''Conservative'', top_k = 1\<rparr>
   \<and> recommend (startup None (Some catalog3))
       \<lparr>user_id = ''u'', risk_profile = Some ''Conservative'', top_k = 1\<rparr>
     = Inr \<lparr>resp_user_id = ''u'', source = ''Rule-Based (Conservative)'',
            recommendations = [''A1'']\<rparr>
   \<and> int (length (recommendations \<lparr>resp_user_id = ''u'', source = ''Rule-Based (Conservative)'',
            recommendations = [''A1'']\<rparr>)) \<le> 1"
proof -
  let ?req = "\<lparr>user_id = ''u'', risk_profile = Some ''Conservative'', top_k = 1\<rparr>"
  let ?r = "\<lparr>resp_user_id = ''u'', source = ''Rule-Based (Conservative)'',
            recommendations = [''A1'']\<rparr>"
  have k: "0 \<le> top_k ?req"
    by simp
  have v: "recommend (startup None (Some catalog3)) ?req = Inr ?r"
    by (simp add: recommend_def use_ai_def startup_def get_cold_start_recs_def
        target_cats_def sublist_code(3) head_def rule_based_def)
  from length_le_top_k [OF k v] have "int (length (recommendations ?r)) \<le> top_k ?req"
    by blast
  with k v show ?thesis
    by simp
qed

text \<open>
  C8. When the ISIN column of the loaded table has no repeated identifier, every list of
  recommendations the handler returns, on the cold-start and on the warm-start path, has no
  repeated identifier.
\<close>

theorem recommendations_distinct:
  assumes "distinct (map ISIN rows)"
    and "recommend (startup pkl (Some rows)) request = Inr r"
  shows "distinct (recommendations r)"
  using recommend_Inr [OF assms(2)] assms(1)
  by (auto dest: distinct_warm distinct_cold simp: startup_loaded distinct_unique)

theorem recommendations_distinct_witness:
  "distinct (map ISIN catalog3)
   \<and> recommend (startup (Some model3) (Some catalog3))
       \<lparr>user_id = ''U1001'', risk_profile = Some ''Balanced'', top_k = 2\<rparr>
     = Inr \<lparr>resp_user_id = ''U1001'', source = ''AI Model (SVD)'',
            recommendations = [''A1'', ''A3'']\<rparr>
   \<and> distinct (recommendations \<lparr>resp_user_id = ''U1001'', source = ''AI Model (SVD)'',
            recommendations = [''A1'', ''A3'']\<rparr>)"
proof -
  let ?req = "\<lparr>user_id = ''U1001'', risk_profile = Some ''Balanced'', top_k = 2\<rparr>"
  let ?r = "\<lparr>resp_user_id = ''U1001'', source = ''AI Model (SVD)'',
            recommendations = [''A1'', ''A3'']\<rparr>"
  have d: "distinct (map ISIN catalog3)"
    by simp
  have v: "recommend (startup (Some model3) (Some catalog3)) ?req = Inr ?r"
    by (simp add: recommend_def use_ai_def startup_def get_warm_start_recs_def head_def
        sort_reverse_def predictions_def)
  from recommendations_distinct [OF d v] d v show ?thesis
    by blast
qed

text \<open>
  C9. Each ranker is a function of its inputs: the cold-start result depends on the
  globals only through the asset table, and on nothing of the request but the risk profile
  and the count; the warm-start result depends on the model only through its estimates for
  this user on the scored identifiers. For two users that are both handled by the cold
  path, with the same risk profile and count, the handler gives the same provenance label
  and the same list (or the same error).
\<close>

theorem rankers_deterministic:
  "(df_assets g = df_assets g' \<longrightarrow>
      get_cold_start_recs g rp k = get_cold_start_recs g' rp k)
   \<and> (MODEL_SVD g = Some m \<and> MODEL_SVD g' = Some m' \<and> ALL_ASSET_IDS g = ALL_ASSET_IDS g'
        \<and> (\<forall>a \<in> set (ALL_ASSET_IDS g). est m u a = est m' u a) \<longrightarrow>
      get_warm_start_recs g u k = get_warm_start_recs g' u k)
   \<and> (\<not> use_ai g u1 \<and> \<not> use_ai g u2 \<longrightarrow>
      map_sum id (\<lambda>r. (source r, recommendations r))
          (recommend g \<lparr>user_id = u1, risk_profile = rp, top_k = k\<rparr>)
        = map_sum id (\<lambda>r. (source r, recommendations r))
          (recommend g \<lparr>user_id = u2, risk_profile = rp, top_k = k\<rparr>))"
proof (intro conjI impI)
  assume "df_assets g = df_assets g'"
  then show "get_cold_start_recs g rp k = get_cold_start_recs g' rp k"
    by (cases rp) (simp_all add: get_cold_start_recs_def)
next
  assume a: "MODEL_SVD g = Some m \<and> MODEL_SVD g' = Some m' \<and> ALL_ASSET_IDS g = ALL_ASSET_IDS g'
        \<and> (\<forall>a \<in> set (ALL_ASSET_IDS g). est m u a = est m' u a)"
  then have "predictions m (ALL_ASSET_IDS g) u = predictions m' (ALL_ASSET_IDS g') u"
    using predictions_cong [of "ALL_ASSET_IDS g" m u m'] by simp
  with a show "get_warm_start_recs g u k = get_warm_start_recs g' u k"
    by (simp add: get_warm_start_recs_def)
next
  assume "\<not> use_ai g u1 \<and> \<not> use_ai g u2"
  then show "map_sum id (\<lambda>r. (source r, recommendations r))
          (recommend g \<lparr>user_id = u1, risk_profile = rp, top_k = k\<rparr>)
        = map_sum id (\<lambda>r. (source r, recommendations r))
          (recommend g \<lparr>user_id = u2, risk_profile = rp, top_k = k\<rparr>)"
    by (cases "get_cold_start_recs g rp k") (simp_all add: recommend_def)
qed

theorem rankers_deterministic_witness:
  "\<not> use_ai (startup (Some model3) (Some catalog3)) ''alice''
   \<and> \<not> use_ai (startup (Some model3) (Some catalog3)) ''bob''
   \<and> map_sum id (\<lambda>r. (source r, recommendations r))
        (recommend (startup (Some model3) (Some catalog3))
           \<lparr>user_id = ''alice'', risk_profile = Some ''Aggressive'', top_k = 1\<rparr>)
      = map_sum id (\<lambda>r. (source r, recommendations r))
        (recommend (startup (Some model3) (Some catalog3))
           \<lparr>user_id = ''bob'', risk_profile = Some ''Aggressive'', top_k = 1\<rparr>)
   \<and> recommend (startup (Some model3) (Some catalog3))
           \<lparr>user_id = ''bob'', risk_profile = Some ''Aggressive'', top_k = 1\<rparr>
      = Inr \<lparr>resp_user_id = ''bob'', source = ''Rule-Based (Aggressive)'',
             recommendations = [''A2'']\<rparr>
   \<and> df_assets (startup (Some model3) (Some catalog3)) = df_assets (startup None (Some catalog3))
   \<and> get_cold_start_recs (startup (Some model3) (Some catalog3)) (Some ''Aggressive'') 1
      = get_cold_start_recs (startup None (Some catalog3)) (Some ''Aggressive'') 1"
proof -
  let ?g = "startup (Some model3) (Some catalog3)"
  have a: "\<not> use_ai ?g ''alice''" and b: "\<not> use_ai ?g ''bob''"
    by (simp_all add: use_ai_def startup_def)
  have d: "df_assets ?g = df_assets (startup None (Some catalog3))"
    by (simp add: startup_def)
  have v: "recommend ?g \<lparr>user_id = ''bob'', risk_profile = Some ''Aggressive'', top_k = 1\<rparr>
      = Inr \<lparr>resp_user_id = ''bob'', source = ''Rule-Based (Aggressive)'',
             recommendations = [''A2'']\<rparr>"
    by (simp add: recommend_def use_ai_def startup_def get_cold_start_recs_def target_cats_def
        sublist_code(3) head_def rule_based_def)
  from rankers_deterministic
    [of ?g "startup None (Some catalog3)" "Some ''Aggressive''" 1 model3 model3 "''bob''"
        "''alice''" "''bob''"]
    a b d v
  show ?thesis
    by blast
qed

text \<open>
  C4, as stated, fails: a body with \<open>top_k = 0\<close> or \<open>top_k = 51\<close> is answered with
  a response.
\<close>

theorem top_k_out_of_range_counterexample:
  "post_recommend (startup None (Some catalog3))
       \<lparr>body_user_id = Some ''u'', body_risk_profile = None, body_top_k = Some 0\<rparr>
     = Inr \<lparr>resp_user_id = ''u'', source = ''Rule-Based (Balanced)'', recommendations = []\<rparr>
   \<and> post_recommend (startup None (Some catalog3))
       \<lparr>body_user_id = Some ''u'', body_risk_profile = Some (Some ''Conservative''),
        body_top_k = Some 51\<rparr>
     = Inr \<lparr>resp_user_id = ''u'', source = ''Rule-Based (Conservative)'',
            recommendations = [''A1'', ''A3'']\<rparr>"
  by (simp add: post_recommend_def validate_def recommend_def use_ai_def startup_def
      get_cold_start_recs_def target_cats_def sublist_code(3) head_def rule_based_def)

text \<open>
  C4, amended. The request schema puts no range on \<open>top_k\<close>: a body that has a
  \<open>user_id\<close> and any integer \<open>top_k\<close> passes validation with that \<open>top_k\<close> unchanged, is
  handed to the handler, and is never answered with a ValidationError.
\<close>

theorem top_k_not_range_checked:
  "validate \<lparr>body_user_id = Some u, body_risk_profile = rp, body_top_k = Some k\<rparr>
     = Inr \<lparr>user_id = u,
            risk_profile = (case rp of None \<Rightarrow> Some ''Balanced'' | Some r \<Rightarrow> r),
            top_k = k\<rparr>
   \<and> post_recommend g \<lparr>body_user_id = Some u, body_risk_profile = rp, body_top_k = Some k\<rparr>
     = recommend g
         \<lparr>user_id = u,
          risk_profile = (case rp of None \<Rightarrow> Some ''Balanced'' | Some r \<Rightarrow> r),
          top_k = k\<rparr>
   \<and> post_recommend g \<lparr>body_user_id = Some u, body_risk_profile = rp, body_top_k = Some k\<rparr>
     \<noteq> Inl ValidationError"
  by (simp add: post_recommend_def validate_present recommend_not_ValidationError)

text \<open>
  C5, as stated, fails for the empty \<open>user_id\<close>: the body is accepted and answered.
\<close>

theorem empty_user_id_counterexample:
  "post_recommend (startup None (Some catalog3))
       \<lparr>body_user_id = Some '''', body_risk_profile = None, body_top_k = None\<rparr>
     = Inr \<lparr>resp_user_id = '''', source = ''Rule-Based (Balanced)'',
            recommendations = [''A2'']\<rparr>"
  by (simp add: post_recommend_def validate_def recommend_def use_ai_def startup_def
      get_cold_start_recs_def target_cats_def sublist_code(3) head_def rule_based_def)

text \<open>
  C5, amended. A body without \<open>user_id\<close> is rejected with a ValidationError by the
  validation alone, whatever the globals are, so no ranker runs; a body whose \<open>user_id\<close> is
  the empty string passes validation and is never answered with a ValidationError.
\<close>

theorem missing_user_id_rejected:
  "post_recommend g \<lparr>body_user_id = None, body_risk_profile = rp, body_top_k = t\<rparr>
     = Inl ValidationError
   \<and> validate \<lparr>body_user_id = Some [], body_risk_profile = rp, body_top_k = t\<rparr>
     = Inr \<lparr>user_id = [],
            risk_profile = (case rp of None \<Rightarrow> Some ''Balanced'' | Some r \<Rightarrow> r),
            top_k = (case t of None \<Rightarrow> 5 | Some k \<Rightarrow> k)\<rparr>
   \<and> post_recommend g \<lparr>body_user_id = Some [], body_risk_profile = rp, body_top_k = t\<rparr>
     \<noteq> Inl ValidationError"
  by (simp add: post_recommend_def validate_present validate_missing
      recommend_not_ValidationError)

text \<open>
  C1 at a body whose \<open>risk_profile\<close> is \<open>null\<close>: validation accepts it, the handler takes
  the cold path (the model is absent, or the user is unknown to it), and the substring test
  on \<open>None\<close> raises TypeError; the request gets no response and no provenance label. For
  the other requests the dispatch of C1 is lemma \<open>recommend_dispatch\<close>.
\<close>

theorem null_risk_profile_cold_path_raises:
  "validate \<lparr>body_user_id = Some ''u'', body_risk_profile = Some None, body_top_k = None\<rparr>
     = Inr \<lparr>user_id = ''u'', risk_profile = None, top_k = 5\<rparr>
   \<and> MODEL_SVD (startup None (Some catalog3)) = None
   \<and> post_recommend (startup None (Some catalog3))
       \<lparr>body_user_id = Some ''u'', body_risk_profile = Some None, body_top_k = None\<rparr>
     = Inl TypeError
   \<and> \<not> use_ai (startup (Some model3) (Some catalog3)) ''u''
   \<and> post_recommend (startup (Some model3) (Some catalog3))
       \<lparr>body_user_id = Some ''u'', body_risk_profile = Some None, body_top_k = None\<rparr>
     = Inl TypeError"
  by (simp add: post_recommend_def validate_def recommend_def use_ai_def startup_def
      get_cold_start_recs_def)

end
